theory Spec2Isabelle
  imports Main "HOL-Library.Word"
begin

section \<open>The storage service of src/services/supabaseStorageService.ts\<close>

text \<open>
  A shallow embedding of the class \<open>SupabaseStorageService\<close>. Every method is a function of
  the service (the SDK client and the bucket name) and of its arguments, and returns the
  outcome of the call (the thrown value, or the returned one) together with the list of the
  requests it sent to the storage backend, in order.

  A project name, the one string that the source puts in lower case, is a list of UTF-16
  code units. Every other string is only compared, cut and joined; it is a list of 8-bit
  characters, read as the code units U+0000 to U+00FF.
  Numbers that the source only compares or passes on (sizes, limits, expiry times) are
  integers.
\<close>

subsection \<open>String primitives of the language\<close>

text \<open>
  A UTF-16 code unit: \<open>Latin c\<close> is the unit U+0000 to U+00FF with the number of \<open>c\<close>,
  and \<open>Wide n\<close> is the unit numbered \<open>256 + n\<close>. So U+0130 is \<open>Wide 48\<close> and U+0307 is
  \<open>Wide 519\<close>.
\<close>

datatype code_unit = Latin char | Wide nat

type_synonym utf16 = "code_unit list"

text \<open>A string of 8-bit characters as a string of code units.\<close>

definition latin :: "string \<Rightarrow> utf16" where
  "latin s = map Latin s"

text \<open>
  \<open>String.prototype.toLowerCase\<close>. A unit from U+0000 to U+00FF has one lower-case
  unit, whatever stands around it.
\<close>

definition lowerChar :: "char \<Rightarrow> char" where
  "lowerChar c =
     (let n = (of_char c :: nat)
      in if (65 \<le> n \<and> n \<le> 90) \<or> (192 \<le> n \<and> n \<le> 222 \<and> n \<noteq> 215)
         then char_of (n + 32) else c)"

text \<open>
  A unit from U+0100 up is replaced by the units that the Unicode case tables of the
  language give for it at its place: none, one or several units, which may depend on the
  units around it (a capital sigma at the end of a word, the halves of a surrogate pair) and
  may lie below U+0100 (U+212A gives \<open>k\<close>). The tables are not part of the sources: they are
  the parameter \<open>wide\<close>, a function of the whole string and the position.
\<close>

type_synonym wide_lower = "utf16 \<Rightarrow> nat \<Rightarrow> utf16"

fun lower_units :: "wide_lower \<Rightarrow> utf16 \<Rightarrow> nat \<Rightarrow> utf16 \<Rightarrow> utf16" where
  "lower_units wide s i [] = []"
| "lower_units wide s i (Latin c # us) = Latin (lowerChar c) # lower_units wide s (Suc i) us"
| "lower_units wide s i (Wide n # us) = wide s i @ lower_units wide s (Suc i) us"

definition toLowerCase :: "wide_lower \<Rightarrow> utf16 \<Rightarrow> utf16" where
  "toLowerCase wide s = lower_units wide s 0 s"

text \<open>The character class \<open>[a-z0-9-]\<close>; the regular expression matches its complement.\<close>

definition inClass :: "char \<Rightarrow> bool" where
  "inClass c =
     (let n = (of_char c :: nat)
      in (97 \<le> n \<and> n \<le> 122) \<or> (48 \<le> n \<and> n \<le> 57) \<or> n = 45)"

text \<open>
  \<open>s.replace(/[^a-z0-9-]/g, '-')\<close>: a left-to-right scan over the code units, every match
  replaced. No unit from U+0100 up is in the class, so every unit of the result is below
  U+0100 and the result is a string of 8-bit characters.
\<close>

fun replaceAll_nonClass :: "utf16 \<Rightarrow> string" where
  "replaceAll_nonClass [] = []"
| "replaceAll_nonClass (Latin c # us) =
     (if inClass c then c # replaceAll_nonClass us
      else CHR ''-'' # replaceAll_nonClass us)"
| "replaceAll_nonClass (Wide n # us) = CHR ''-'' # replaceAll_nonClass us"

text \<open>\<open>s.includes(sub)\<close>.\<close>

fun startsWith :: "string \<Rightarrow> string \<Rightarrow> bool" where
  "startsWith s [] = True"
| "startsWith [] (p # ps) = False"
| "startsWith (c # cs) (p # ps) = (c = p \<and> startsWith cs ps)"

fun includes_str :: "string \<Rightarrow> string \<Rightarrow> bool" where
  "includes_str [] sub = startsWith [] sub"
| "includes_str (c # cs) sub = (startsWith (c # cs) sub \<or> includes_str cs sub)"

text \<open>\<open>parts.join(sep)\<close>.\<close>

fun join :: "string \<Rightarrow> string list \<Rightarrow> string" where
  "join sep [] = []"
| "join sep [x] = x"
| "join sep (x # y # ys) = x @ sep @ join sep (y # ys)"

text \<open>\<open>s.split(c)\<close> for a one-character separator: never the empty array.\<close>

fun split_str :: "char \<Rightarrow> string \<Rightarrow> string list" where
  "split_str c [] = [[]]"
| "split_str c (x # xs) =
     (if x = c then [] # split_str c xs
      else (case split_str c xs of
              [] \<Rightarrow> [[x]]
            | w # ws \<Rightarrow> (x # w) # ws))"

text \<open>\<open>parts.pop()\<close>: the last element, \<open>undefined\<close> (here \<open>None\<close>) on the empty array.\<close>

fun pop :: "'a list \<Rightarrow> 'a option" where
  "pop [] = None"
| "pop [x] = Some x"
| "pop (x # y # ys) = pop (y # ys)"

text \<open>A value placed in a template literal: \<open>undefined\<close> prints as its name.\<close>

fun template_str :: "string option \<Rightarrow> string" where
  "template_str None = ''undefined''"
| "template_str (Some s) = s"

text \<open>\<open>s.lastIndexOf(c)\<close>: the greatest index holding \<open>c\<close>, or \<open>-1\<close>.\<close>

fun lastIndexOf_from :: "char \<Rightarrow> string \<Rightarrow> int \<Rightarrow> int \<Rightarrow> int" where
  "lastIndexOf_from c [] i found = found"
| "lastIndexOf_from c (x # xs) i found =
     lastIndexOf_from c xs (i + 1) (if x = c then i else found)"

definition lastIndexOf :: "string \<Rightarrow> char \<Rightarrow> int" where
  "lastIndexOf s c = lastIndexOf_from c s 0 (- 1)"

text \<open>
  \<open>s.substring(a, b)\<close> and \<open>s.substring(a)\<close>: both bounds are clamped to
  \<open>0 .. length\<close>, and swapped when the first exceeds the second.
\<close>

definition substring :: "string \<Rightarrow> int \<Rightarrow> int \<Rightarrow> string" where
  "substring s a b =
     (let n = int (length s);
          a' = max 0 (min a n);
          b' = max 0 (min b n);
          lo = min a' b';
          hi = max a' b'
      in take (nat (hi - lo)) (drop (nat lo) s))"

definition substring_from :: "string \<Rightarrow> int \<Rightarrow> string" where
  "substring_from s a = substring s a (int (length s))"

text \<open>A non-negative integer in a template literal: its decimal digits.\<close>

definition digitChar :: "nat \<Rightarrow> char" where
  "digitChar d = ''0123456789'' ! d"

fun show_nat :: "nat \<Rightarrow> string" where
  "show_nat n =
     (if n < 10 then [digitChar n]
      else show_nat (n div 10) @ [digitChar (n mod 10)])"

declare show_nat.simps [simp del]

text \<open>Truthiness of an optional string: \<open>undefined\<close> and \<open>''\<close> are falsy.\<close>

fun truthy :: "'a list option \<Rightarrow> bool" where
  "truthy None = False"
| "truthy (Some s) = (s \<noteq> [])"

subsection \<open>Thrown values\<close>

text \<open>
  What the storage SDK can throw: an \<open>Error\<close> instance with its message, or a value that
  is not an \<open>Error\<close>.
\<close>

datatype sdk_exception = SdkError string | SdkNonError

text \<open>
  What a method of the service can throw: an error made by \<open>createError\<close>, with its
  status code and message, or a value that came from the SDK.
\<close>

datatype thrown = AppError nat string | Foreign sdk_exception

text \<open>
  Modelled from the spec: \<open>createError\<close> of \<open>../middleware/errorHandler.js\<close> is not part
  of the sources. The spec says that errors raised to callers carry an HTTP-style status
  code and a message; the result is an \<open>Error\<close> instance carrying both.
\<close>

definition createError :: "nat \<Rightarrow> string \<Rightarrow> thrown" where
  "createError status msg = AppError status msg"

fun instanceofError :: "thrown \<Rightarrow> bool" where
  "instanceofError (AppError status msg) = True"
| "instanceofError (Foreign (SdkError msg)) = True"
| "instanceofError (Foreign SdkNonError) = False"

text \<open>\<open>error.message\<close>, read only where \<open>error instanceof Error\<close> holds.\<close>

fun message :: "thrown \<Rightarrow> string" where
  "message (AppError status msg) = msg"
| "message (Foreign (SdkError msg)) = msg"
| "message (Foreign SdkNonError) = []"

subsection \<open>The storage SDK\<close>

text \<open>
  A call of the SDK resolves to \<open>{ data, error: null }\<close> or to \<open>{ data: null, error }\<close>,
  or throws. Under this type the source's tests \<open>!data\<close> and \<open>data || []\<close> can only
  succeed together with \<open>error\<close>.
\<close>

datatype 'a reply = Data 'a | StorageError string | Throws sdk_exception

record file_metadata =
  md_size :: "int option"
  md_mimetype :: "string option"

record FileObject =
  fo_name :: string
  fo_updated_at :: string
  fo_metadata :: "file_metadata option"

record list_options =
  limit :: "nat option"
  sortBy :: "(string \<times> string) option"
  search :: "string option"

record upload_options =
  contentType :: string
  cacheControl :: string
  upsert :: bool

type_synonym buffer = "8 word list"

text \<open>The requests a method can send, each with the bucket it addresses.\<close>

datatype request =
    Upload string string buffer upload_options
  | Remove string "string list"
  | CreateSignedUploadUrl string string
  | CreateSignedUrl string string int
  | ListObjects string string list_options

text \<open>
  The client: one function per SDK call used by the service. \<open>sb_getPublicUrl\<close> stands
  for the URL builder of the SDK, which is not part of the sources: it is taken as a
  function of the bucket and the key that only formats a string.
\<close>

record storage_client =
  sb_upload :: "string \<Rightarrow> string \<Rightarrow> buffer \<Rightarrow> upload_options \<Rightarrow> unit reply"
  sb_remove :: "string \<Rightarrow> string list \<Rightarrow> unit reply"
  sb_createSignedUploadUrl :: "string \<Rightarrow> string \<Rightarrow> string reply"
  sb_createSignedUrl :: "string \<Rightarrow> string \<Rightarrow> int \<Rightarrow> string reply"
  sb_list :: "string \<Rightarrow> string \<Rightarrow> list_options \<Rightarrow> FileObject list reply"
  sb_getPublicUrl :: "string \<Rightarrow> string \<Rightarrow> string"

record service =
  supabase :: storage_client
  bucketName :: string

subsection \<open>uploadFile\<close>

record multer_file =
  originalname :: string
  mimetype :: string
  size_bytes :: int
  file_buffer :: buffer

record FileUploadOptions =
  opt_folder :: "string option"
  opt_allowedTypes :: "string list option"
  opt_maxSize :: "int option"
  opt_projectName :: "utf16 option"

record UploadResult =
  res_url :: string
  res_key :: string
  res_bucket :: string
  res_size :: int

text \<open>
  What a call reads from its surroundings: \<open>Date.now()\<close>, the string
  \<open>Math.random().toString(36).substring(2, 15)\<close>, the printed form of the
  floating-point quotient \<open>maxSize / (1024 * 1024)\<close>, and the case tables of the
  language for the code units from U+0100 up.
\<close>

record runtime =
  now :: nat
  randomString :: string
  show_megabytes :: "int \<Rightarrow> string"
  lower_wide :: wide_lower

definition folder_of :: "FileUploadOptions \<Rightarrow> string" where
  "folder_of options = (case opt_folder options of None \<Rightarrow> ''uploads'' | Some f \<Rightarrow> f)"

definition allowedTypes_of :: "FileUploadOptions \<Rightarrow> string list" where
  "allowedTypes_of options =
     (case opt_allowedTypes options of
        None \<Rightarrow> [''image/jpeg'', ''image/png'', ''image/gif'', ''image/webp'']
      | Some ts \<Rightarrow> ts)"

definition maxSize_of :: "FileUploadOptions \<Rightarrow> int" where
  "maxSize_of options =
     (case opt_maxSize options of None \<Rightarrow> 5 * 1024 * 1024 | Some m \<Rightarrow> m)"

text \<open>\<open>projectName.toLowerCase().replace(/[^a-z0-9-]/g, '-')\<close>.\<close>

definition sanitizedProjectName :: "wide_lower \<Rightarrow> utf16 \<Rightarrow> string" where
  "sanitizedProjectName wide projectName = replaceAll_nonClass (toLowerCase wide projectName)"

definition fileExtension :: "string \<Rightarrow> string option" where
  "fileExtension name = pop (split_str CHR ''.'' name)"

definition fileName_of :: "runtime \<Rightarrow> multer_file \<Rightarrow> string" where
  "fileName_of rt file =
     show_nat (now rt) @ ''-'' @ randomString rt @ ''.''
       @ template_str (fileExtension (originalname file))"

definition objectKey :: "runtime \<Rightarrow> multer_file \<Rightarrow> FileUploadOptions \<Rightarrow> string" where
  "objectKey rt file options =
     (if truthy (opt_projectName options)
      then sanitizedProjectName (lower_wide rt) (the (opt_projectName options)) @ ''/''
             @ folder_of options @ ''/'' @ fileName_of rt file
      else folder_of options @ ''/'' @ fileName_of rt file)"

text \<open>The body of the \<open>try\<close> block.\<close>

definition uploadFile_body ::
  "service \<Rightarrow> runtime \<Rightarrow> multer_file \<Rightarrow> FileUploadOptions
     \<Rightarrow> (thrown + UploadResult) \<times> request list" where
  "uploadFile_body svc rt file options =
     (if mimetype file \<notin> set (allowedTypes_of options)
      then (Inl (createError 400
                  (''Invalid file type. Allowed types: ''
                     @ join '', '' (allowedTypes_of options))), [])
      else if size_bytes file > maxSize_of options
      then (Inl (createError 400
                  (''File too large. Maximum size: ''
                     @ show_megabytes rt (maxSize_of options) @ ''MB'')), [])
      else
        (let key = objectKey rt file options;
             opts = \<lparr>contentType = mimetype file, cacheControl = ''3600'', upsert = False\<rparr>;
             sent = [Upload (bucketName svc) key (file_buffer file) opts]
         in case sb_upload (supabase svc) (bucketName svc) key (file_buffer file) opts of
              Throws e \<Rightarrow> (Inl (Foreign e), sent)
            | StorageError m \<Rightarrow> (Inl (createError 500 (''Upload failed: '' @ m)), sent)
            | Data d \<Rightarrow>
                (Inr \<lparr>res_url = sb_getPublicUrl (supabase svc) (bucketName svc) key,
                      res_key = key,
                      res_bucket = bucketName svc,
                      res_size = size_bytes file\<rparr>, sent)))"

text \<open>The \<open>catch\<close> block: what is thrown to the caller for a value caught.\<close>

definition uploadFile_catch :: "thrown \<Rightarrow> thrown" where
  "uploadFile_catch error =
     (if instanceofError error
         \<and> (includes_str (message error) ''Invalid file type''
              \<or> includes_str (message error) ''File too large'')
      then error
      else createError 500
             (''Failed to upload file: ''
                @ (if instanceofError error then message error else ''Unknown error'')))"

definition uploadFile ::
  "service \<Rightarrow> runtime \<Rightarrow> multer_file \<Rightarrow> FileUploadOptions
     \<Rightarrow> (thrown + UploadResult) \<times> request list" where
  "uploadFile svc rt file options =
     (case uploadFile_body svc rt file options of
        (Inl error, sent) \<Rightarrow> (Inl (uploadFile_catch error), sent)
      | (Inr result, sent) \<Rightarrow> (Inr result, sent))"

subsection \<open>deleteFile\<close>

definition deleteFile_body :: "service \<Rightarrow> string \<Rightarrow> (thrown + unit) \<times> request list" where
  "deleteFile_body svc key =
     (let sent = [Remove (bucketName svc) [key]]
      in case sb_remove (supabase svc) (bucketName svc) [key] of
           Throws e \<Rightarrow> (Inl (Foreign e), sent)
         | StorageError m \<Rightarrow> (Inl (createError 500 (''Failed to delete file: '' @ m)), sent)
         | Data d \<Rightarrow> (Inr (), sent))"

definition deleteFile :: "service \<Rightarrow> string \<Rightarrow> (thrown + unit) \<times> request list" where
  "deleteFile svc key =
     (case deleteFile_body svc key of
        (Inl error, sent) \<Rightarrow> (Inl (createError 500 ''Failed to delete file from storage''), sent)
      | (Inr u, sent) \<Rightarrow> (Inr u, sent))"

subsection \<open>Signed URLs\<close>

text \<open>The third parameter is \<open>expiresIn\<close>, with its default of 3600 when omitted.\<close>

definition expiresIn_of :: "int option \<Rightarrow> int" where
  "expiresIn_of e = (case e of None \<Rightarrow> 3600 | Some n \<Rightarrow> n)"

definition getSignedUploadUrl_body ::
  "service \<Rightarrow> string \<Rightarrow> string \<Rightarrow> int option \<Rightarrow> (thrown + string) \<times> request list" where
  "getSignedUploadUrl_body svc key ctype expiresIn =
     (let sent = [CreateSignedUploadUrl (bucketName svc) key]
      in case sb_createSignedUploadUrl (supabase svc) (bucketName svc) key of
           Throws e \<Rightarrow> (Inl (Foreign e), sent)
         | StorageError m \<Rightarrow>
             (Inl (createError 500 (''Failed to generate signed URL: '' @ m)), sent)
         | Data signedUrl \<Rightarrow> (Inr signedUrl, sent))"

definition getSignedUploadUrl ::
  "service \<Rightarrow> string \<Rightarrow> string \<Rightarrow> int option \<Rightarrow> (thrown + string) \<times> request list" where
  "getSignedUploadUrl svc key ctype expiresIn =
     (case getSignedUploadUrl_body svc key ctype expiresIn of
        (Inl error, sent) \<Rightarrow>
          (Inl (createError 500 ''Failed to generate signed upload URL''), sent)
      | (Inr u, sent) \<Rightarrow> (Inr u, sent))"

definition getSignedDownloadUrl_body ::
  "service \<Rightarrow> string \<Rightarrow> int option \<Rightarrow> (thrown + string) \<times> request list" where
  "getSignedDownloadUrl_body svc key expiresIn =
     (let sent = [CreateSignedUrl (bucketName svc) key (expiresIn_of expiresIn)]
      in case sb_createSignedUrl (supabase svc) (bucketName svc) key (expiresIn_of expiresIn) of
           Throws e \<Rightarrow> (Inl (Foreign e), sent)
         | StorageError m \<Rightarrow>
             (Inl (createError 500 (''Failed to generate signed URL: '' @ m)), sent)
         | Data signedUrl \<Rightarrow> (Inr signedUrl, sent))"

definition getSignedDownloadUrl ::
  "service \<Rightarrow> string \<Rightarrow> int option \<Rightarrow> (thrown + string) \<times> request list" where
  "getSignedDownloadUrl svc key expiresIn =
     (case getSignedDownloadUrl_body svc key expiresIn of
        (Inl error, sent) \<Rightarrow>
          (Inl (createError 500 ''Failed to generate signed download URL''), sent)
      | (Inr u, sent) \<Rightarrow> (Inr u, sent))"

subsection \<open>fileExists and getFileMetadata\<close>

text \<open>\<open>key.substring(0, key.lastIndexOf('/'))\<close> and \<open>key.substring(key.lastIndexOf('/') + 1)\<close>.\<close>

definition key_folder :: "string \<Rightarrow> string" where
  "key_folder key = substring key 0 (lastIndexOf key CHR ''/'')"

definition key_fileName :: "string \<Rightarrow> string" where
  "key_fileName key = substring_from key (lastIndexOf key CHR ''/'' + 1)"

definition fileExists :: "service \<Rightarrow> string \<Rightarrow> (thrown + bool) \<times> request list" where
  "fileExists svc key =
     (let opts = \<lparr>limit = None, sortBy = None, search = Some (key_fileName key)\<rparr>;
          sent = [ListObjects (bucketName svc) (key_folder key) opts]
      in case sb_list (supabase svc) (bucketName svc) (key_folder key) opts of
           Throws e \<Rightarrow> (Inr False, sent)
         | StorageError m \<Rightarrow> (Inr False, sent)
         | Data files \<Rightarrow> (Inr (length files > 0), sent))"

record FileMetadata =
  meta_name :: string
  meta_size :: "int option"
  meta_lastModified :: string
  meta_contentType :: "string option"

definition getFileMetadata_body ::
  "service \<Rightarrow> string \<Rightarrow> (thrown + FileMetadata) \<times> request list" where
  "getFileMetadata_body svc key =
     (let folder = key_folder key;
          fileName = key_fileName key;
          opts = \<lparr>limit = None, sortBy = None, search = Some fileName\<rparr>;
          sent = [ListObjects (bucketName svc) folder opts]
      in case sb_list (supabase svc) (bucketName svc) folder opts of
           Throws e \<Rightarrow> (Inl (Foreign e), sent)
         | StorageError m \<Rightarrow> (Inl (createError 404 ''File not found''), sent)
         | Data [] \<Rightarrow> (Inl (createError 404 ''File not found''), sent)
         | Data (fileInfo # rest) \<Rightarrow>
             (Inr \<lparr>meta_name = fo_name fileInfo,
                   meta_size = Option.bind (fo_metadata fileInfo) md_size,
                   meta_lastModified = fo_updated_at fileInfo,
                   meta_contentType = Option.bind (fo_metadata fileInfo) md_mimetype\<rparr>, sent))"

definition getFileMetadata ::
  "service \<Rightarrow> string \<Rightarrow> (thrown + FileMetadata) \<times> request list" where
  "getFileMetadata svc key =
     (case getFileMetadata_body svc key of
        (Inl error, sent) \<Rightarrow> (Inl (createError 500 ''Failed to get file metadata''), sent)
      | (Inr m, sent) \<Rightarrow> (Inr m, sent))"

subsection \<open>listProjectFiles and getPublicUrl\<close>

record listed_file =
  Key :: string
  Size :: "int option"
  LastModified :: string

definition list_prefix :: "wide_lower \<Rightarrow> utf16 \<Rightarrow> string option \<Rightarrow> string" where
  "list_prefix wide projectName folder =
     (if truthy folder then sanitizedProjectName wide projectName @ ''/'' @ the folder
      else sanitizedProjectName wide projectName)"

definition project_list_options :: list_options where
  "project_list_options = \<lparr>limit = Some 1000, sortBy = Some (''name'', ''asc''), search = None\<rparr>"

definition listed_of :: "string \<Rightarrow> FileObject \<Rightarrow> listed_file" where
  "listed_of prefix file =
     \<lparr>Key = prefix @ ''/'' @ fo_name file,
      Size = Option.bind (fo_metadata file) md_size,
      LastModified = fo_updated_at file\<rparr>"

text \<open>The second parameter stands for the case tables of the language.\<close>

definition listProjectFiles_body ::
  "service \<Rightarrow> wide_lower \<Rightarrow> utf16 \<Rightarrow> string option
     \<Rightarrow> (thrown + listed_file list) \<times> request list" where
  "listProjectFiles_body svc wide projectName folder =
     (let prefix = list_prefix wide projectName folder;
          sent = [ListObjects (bucketName svc) prefix project_list_options]
      in case sb_list (supabase svc) (bucketName svc) prefix project_list_options of
           Throws e \<Rightarrow> (Inl (Foreign e), sent)
         | StorageError m \<Rightarrow> (Inl (createError 500 (''Failed to list files: '' @ m)), sent)
         | Data files \<Rightarrow> (Inr (map (listed_of prefix) files), sent))"

definition listProjectFiles ::
  "service \<Rightarrow> wide_lower \<Rightarrow> utf16 \<Rightarrow> string option
     \<Rightarrow> (thrown + listed_file list) \<times> request list" where
  "listProjectFiles svc wide projectName folder =
     (case listProjectFiles_body svc wide projectName folder of
        (Inl error, sent) \<Rightarrow> (Inl (createError 500 ''Failed to list project files''), sent)
      | (Inr files, sent) \<Rightarrow> (Inr files, sent))"

definition getPublicUrl :: "service \<Rightarrow> string \<Rightarrow> (thrown + string) \<times> request list" where
  "getPublicUrl svc key = (Inr (sb_getPublicUrl (supabase svc) (bucketName svc) key), [])"

subsection \<open>Two concrete backends\<close>

text \<open>
  A backend that holds two objects under \<open>proj/videos\<close>, lists those whose name contains
  the text searched for, and refuses every removal; and one that cannot be reached: every
  request throws.
\<close>


definition demo_files :: "FileObject list" where
  "demo_files =
     [\<lparr>fo_name = ''a.mp4'', fo_updated_at = ''2024-01-01T00:00:00Z'',
       fo_metadata = Some \<lparr>md_size = Some 10, md_mimetype = Some ''video/mp4''\<rparr>\<rparr>,
      \<lparr>fo_name = ''b.mp4'', fo_updated_at = ''2024-01-02T00:00:00Z'', fo_metadata = None\<rparr>]"

definition demo_client :: storage_client where
  "demo_client =
     \<lparr>sb_upload = (\<lambda>bucket key body opts. Data ()),
      sb_remove = (\<lambda>bucket keys. StorageError ''Object not found''),
      sb_createSignedUploadUrl = (\<lambda>bucket key. Data (''https://signed.example/'' @ key)),
      sb_createSignedUrl = (\<lambda>bucket key expiresIn. Data (''https://signed.example/'' @ key)),
      sb_list = (\<lambda>bucket prefix opts.
         if prefix = ''proj/videos''
         then Data (case search opts of
                      None \<Rightarrow> demo_files
                    | Some q \<Rightarrow> filter (\<lambda>file. includes_str (fo_name file) q) demo_files)
         else Data []),
      sb_getPublicUrl = (\<lambda>bucket key. ''https://cdn.example/'' @ bucket @ ''/'' @ key)\<rparr>"

definition demo_service :: service where
  "demo_service = \<lparr>supabase = demo_client, bucketName = ''project-assets''\<rparr>"

definition unreachable_client :: storage_client where
  "unreachable_client =
     \<lparr>sb_upload = (\<lambda>bucket key body opts. Throws (SdkError ''fetch failed'')),
      sb_remove = (\<lambda>bucket keys. Throws (SdkError ''fetch failed'')),
      sb_createSignedUploadUrl = (\<lambda>bucket key. Throws (SdkError ''fetch failed'')),
      sb_createSignedUrl = (\<lambda>bucket key expiresIn. Throws (SdkError ''fetch failed'')),
      sb_list = (\<lambda>bucket prefix opts. Throws (SdkError ''fetch failed'')),
      sb_getPublicUrl = (\<lambda>bucket key. ''https://cdn.example/'' @ bucket @ ''/'' @ key)\<rparr>"

definition unreachable_service :: service where
  "unreachable_service = \<lparr>supabase = unreachable_client, bucketName = ''project-assets''\<rparr>"

text \<open>
  A fragment of the case tables (U+0130 gives \<open>i\<close> followed by U+0307, U+212A gives
  \<open>k\<close>, every other unit from U+0100 up is kept), a call's surroundings, the empty options
  record, and three files: a small PNG image, a PDF document, and an image one byte above
  the default size limit whose name has no dot.
\<close>

definition demo_wide :: wide_lower where
  "demo_wide s i =
     (case drop i s of
        [] \<Rightarrow> []
      | Latin c # rest \<Rightarrow> [Latin c]
      | Wide n # rest \<Rightarrow>
          (if n = 48 then [Latin CHR ''i'', Wide 519]
           else if n = 8234 then [Latin CHR ''k'']
           else [Wide n]))"

definition demo_runtime :: runtime where
  "demo_runtime =
     \<lparr>now = 1712345678901, randomString = ''k3j9x0q2abc'',
      show_megabytes = (\<lambda>m. show_nat (nat (m div (1024 * 1024)))),
      lower_wide = demo_wide\<rparr>"

definition no_options :: FileUploadOptions where
  "no_options =
     \<lparr>opt_folder = None, opt_allowedTypes = None, opt_maxSize = None, opt_projectName = None\<rparr>"

definition demo_png :: multer_file where
  "demo_png =
     \<lparr>originalname = ''logo.png'', mimetype = ''image/png'', size_bytes = 10,
      file_buffer = [137, 80, 78, 71, 13, 10, 26, 10, 0, 0]\<rparr>"

definition demo_pdf :: multer_file where
  "demo_pdf =
     \<lparr>originalname = ''paper.pdf'', mimetype = ''application/pdf'', size_bytes = 10,
      file_buffer = [37, 80, 68, 70, 45, 49, 46, 55, 10, 10]\<rparr>"

definition demo_big :: multer_file where
  "demo_big =
     \<lparr>originalname = ''README'', mimetype = ''image/png'', size_bytes = 5242881,
      file_buffer = []\<rparr>"

text \<open>Options naming a project and a folder, and a small image whose name has no dot.\<close>

definition demo_project_options :: FileUploadOptions where
  "demo_project_options =
     \<lparr>opt_folder = Some ''videos'', opt_allowedTypes = None, opt_maxSize = None,
      opt_projectName = Some (latin ''Proj'')\<rparr>"

definition demo_readme :: multer_file where
  "demo_readme =
     \<lparr>originalname = ''README'', mimetype = ''image/png'', size_bytes = 10,
      file_buffer = [137, 80, 78, 71, 13, 10, 26, 10, 0, 0]\<rparr>"

section \<open>Facts about the string primitives\<close>


lemma startsWith_append: "startsWith (p @ s) p"
  by (induction p) simp_all

lemma includes_str_prefix: "includes_str (p @ s) p"
  by (cases "p @ s") (simp_all add: startsWith_append[of p s, simplified] , metis startsWith_append)




lemma split_str_no_sep: "c \<notin> set s \<Longrightarrow> split_str c s = [s]"
  by (induction s) auto

lemma lastIndexOf_from_absent:
  "c \<notin> set s \<Longrightarrow> lastIndexOf_from c s i found = found"
  by (induction s arbitrary: i found) auto

lemma lastIndexOf_from_append:
  "lastIndexOf_from c (p @ s) i found = lastIndexOf_from c s (i + int (length p)) (lastIndexOf_from c p i found)"
  by (induction p arbitrary: i found) (simp_all add: algebra_simps)

lemma lastIndexOf_last:
  "c \<notin> set l \<Longrightarrow> lastIndexOf (p @ c # l) c = int (length p)"
  by (simp add: lastIndexOf_def lastIndexOf_from_append lastIndexOf_from_absent)

lemma lastIndexOf_absent: "c \<notin> set s \<Longrightarrow> lastIndexOf s c = - 1"
  by (simp add: lastIndexOf_def lastIndexOf_from_absent)

lemma key_folder_split:
  "CHR ''/'' \<notin> set l \<Longrightarrow> key_folder (p @ CHR ''/'' # l) = p"
  by (simp add: key_folder_def lastIndexOf_last substring_def Let_def)

lemma key_fileName_split:
  "CHR ''/'' \<notin> set l \<Longrightarrow> key_fileName (p @ CHR ''/'' # l) = l"
  by (simp add: key_fileName_def lastIndexOf_last substring_from_def substring_def Let_def
        nat_add_distrib)

lemma key_folder_flat: "CHR ''/'' \<notin> set k \<Longrightarrow> key_folder k = []"
  by (simp add: key_folder_def lastIndexOf_absent substring_def Let_def)

lemma key_fileName_flat: "CHR ''/'' \<notin> set k \<Longrightarrow> key_fileName k = k"
  by (simp add: key_fileName_def lastIndexOf_absent substring_from_def substring_def Let_def)

subsection \<open>Validation in uploadFile\<close>


lemma includes_invalid_type: "includes_str (''Invalid file type. Allowed types: '' @ rest) ''Invalid file type''"
  by simp

lemma includes_too_large: "includes_str (''File too large. Maximum size: '' @ rest) ''File too large''"
  by simp

lemma uploadFile_catch_AppError_500:
  "uploadFile_catch (AppError 500 m) \<noteq> AppError 400 msg"
  by (simp add: uploadFile_catch_def createError_def)

lemma uploadFile_catch_Foreign:
  "uploadFile_catch (Foreign e) \<noteq> AppError 400 msg"
  by (simp add: uploadFile_catch_def createError_def)

lemma uploadFile_invalid_type:
  "mimetype file \<notin> set (allowedTypes_of options) \<Longrightarrow>
   uploadFile svc rt file options =
     (Inl (AppError 400 (''Invalid file type. Allowed types: ''
                           @ join '', '' (allowedTypes_of options))), [])"
  by (simp add: uploadFile_def uploadFile_body_def uploadFile_catch_def createError_def)

lemma uploadFile_too_large:
  "mimetype file \<in> set (allowedTypes_of options) \<Longrightarrow>
   size_bytes file > maxSize_of options \<Longrightarrow>
   uploadFile svc rt file options =
     (Inl (AppError 400 (''File too large. Maximum size: ''
                           @ show_megabytes rt (maxSize_of options) @ ''MB'')), [])"
  by (simp add: uploadFile_def uploadFile_body_def uploadFile_catch_def createError_def)

lemma uploadFile_sends:
  "mimetype file \<in> set (allowedTypes_of options) \<Longrightarrow>
   size_bytes file \<le> maxSize_of options \<Longrightarrow>
   snd (uploadFile svc rt file options) =
     [Upload (bucketName svc) (objectKey rt file options) (file_buffer file)
        \<lparr>contentType = mimetype file, cacheControl = ''3600'', upsert = False\<rparr>]"
  by (simp add: uploadFile_def uploadFile_body_def Let_def split: reply.splits)

lemma uploadFile_valid_not_400:
  "mimetype file \<in> set (allowedTypes_of options) \<Longrightarrow>
   size_bytes file \<le> maxSize_of options \<Longrightarrow>
   fst (uploadFile svc rt file options) \<noteq> Inl (AppError 400 msg)"
  by (simp add: uploadFile_def uploadFile_body_def Let_def createError_def
        uploadFile_catch_AppError_500 uploadFile_catch_Foreign split: reply.splits)

lemma demo_too_large_text: "''File too large. Maximum size: ''
                @ show_megabytes demo_runtime (maxSize_of no_options) @ ''MB''
              = ''File too large. Maximum size: 5MB''"
  by (simp add: demo_runtime_def no_options_def maxSize_of_def show_nat.simps digitChar_def)
lemma demo_png_key: "objectKey demo_runtime demo_png no_options = ''uploads/1712345678901-k3j9x0q2abc.png''"
  by (simp add: objectKey_def demo_runtime_def demo_png_def no_options_def folder_of_def
      fileName_of_def fileExtension_def show_nat.simps digitChar_def)
lemma demo_png_request: "[Upload (bucketName demo_service) (objectKey demo_runtime demo_png no_options)
               (file_buffer demo_png)
               \<lparr>contentType = mimetype demo_png, cacheControl = ''3600'', upsert = False\<rparr>]
             = [Upload ''project-assets'' ''uploads/1712345678901-k3j9x0q2abc.png''
                  [137, 80, 78, 71, 13, 10, 26, 10, 0, 0]
                  \<lparr>contentType = ''image/png'', cacheControl = ''3600'', upsert = False\<rparr>]"
  unfolding demo_png_key by (simp add: demo_service_def demo_png_def)
lemma demo_big_exceeds: "size_bytes demo_big > maxSize_of no_options"
  by (simp add: demo_big_def no_options_def maxSize_of_def)

subsection \<open>Sanitization, listing and key construction\<close>







lemma sanitized_Proj: "sanitizedProjectName wide (latin ''Proj'') = ''proj''"
  by code_simp


lemma getSignedDownloadUrl_forwards_expiresIn:
  "snd (getSignedDownloadUrl svc key e) = [CreateSignedUrl (bucketName svc) key (expiresIn_of e)]"
  by (simp add: getSignedDownloadUrl_def getSignedDownloadUrl_body_def Let_def split: reply.splits)

lemma fileExists_eq:
  "fileExists svc key =
     (Inr (\<exists>files. sb_list (supabase svc) (bucketName svc) (key_folder key)
                     \<lparr>limit = None, sortBy = None, search = Some (key_fileName key)\<rparr>
                   = Data files \<and> files \<noteq> []),
      [ListObjects (bucketName svc) (key_folder key)
         \<lparr>limit = None, sortBy = None, search = Some (key_fileName key)\<rparr>])"
  by (simp add: fileExists_def Let_def split: reply.splits)

lemma listProjectFiles_sent:
  "snd (listProjectFiles svc wide projectName folder) =
     [ListObjects (bucketName svc) (list_prefix wide projectName folder) project_list_options]"
  by (simp add: listProjectFiles_def listProjectFiles_body_def Let_def split: reply.splits)

lemma listProjectFiles_data:
  "sb_list (supabase svc) (bucketName svc) (list_prefix wide projectName folder)
     project_list_options = Data files \<Longrightarrow>
   fst (listProjectFiles svc wide projectName folder) =
     Inr (map (listed_of (list_prefix wide projectName folder)) files)"
  by (simp add: listProjectFiles_def listProjectFiles_body_def Let_def)

lemma listProjectFiles_Inr:
  "fst (listProjectFiles svc wide projectName folder) = Inr entries \<Longrightarrow>
   \<exists>files. entries = map (listed_of (list_prefix wide projectName folder)) files"
  by (auto simp add: listProjectFiles_def listProjectFiles_body_def Let_def split: reply.splits)

lemma Key_listed_of: "Key (listed_of prefix file) = prefix @ ''/'' @ fo_name file"
  by (simp add: listed_of_def)

lemma list_prefix_Proj_videos:
  "list_prefix wide (latin ''Proj'') (Some ''videos'') = ''proj/videos''"
  by (simp add: list_prefix_def sanitized_Proj)

lemma objectKey_under_list_prefix:
  "p \<noteq> [] \<Longrightarrow> f \<noteq> [] \<Longrightarrow> opt_projectName options = Some p \<Longrightarrow> opt_folder options = Some f \<Longrightarrow>
   objectKey rt file options =
     list_prefix (lower_wide rt) p (Some f) @ ''/'' @ fileName_of rt file"
  by (simp add: objectKey_def list_prefix_def folder_of_def)

lemma demo_listing:
  "sb_list (supabase demo_service) (bucketName demo_service)
     (list_prefix demo_wide (latin ''Proj'') (Some ''videos'')) project_list_options
     = Data demo_files"
  by (simp add: list_prefix_Proj_videos demo_service_def demo_client_def
        project_list_options_def)

lemma demo_entries:
  "map (listed_of ''proj/videos'') demo_files =
     [\<lparr>Key = ''proj/videos/a.mp4'', Size = Some 10, LastModified = ''2024-01-01T00:00:00Z''\<rparr>,
      \<lparr>Key = ''proj/videos/b.mp4'', Size = None, LastModified = ''2024-01-02T00:00:00Z''\<rparr>]"
  by (simp add: demo_files_def listed_of_def)

lemma demo_png_fileName:
  "fileName_of demo_runtime demo_png = ''1712345678901-k3j9x0q2abc.png''"
  by (simp add: fileName_of_def fileExtension_def demo_runtime_def
        demo_png_def show_nat.simps digitChar_def)

lemma fileExtension_no_dot:
  "CHR ''.'' \<notin> set name \<Longrightarrow> fileExtension name = Some name"
  by (simp add: fileExtension_def split_str_no_sep)

lemma fileName_of_no_dot:
  "CHR ''.'' \<notin> set (originalname file) \<Longrightarrow>
   fileName_of rt file = show_nat (now rt) @ ''-'' @ randomString rt @ ''.'' @ originalname file"
  by (simp add: fileName_of_def fileExtension_no_dot)

lemma objectKey_ends_with_fileName:
  "\<exists>p. objectKey rt file options = p @ fileName_of rt file"
  by (simp add: objectKey_def)

subsection \<open>Errors that leave getFileMetadata and deleteFile\<close>

lemma getFileMetadata_never_404:
  "fst (getFileMetadata svc key) \<noteq> Inl (AppError 404 msg)"
  by (simp add: getFileMetadata_def createError_def split: prod.splits sum.splits)

lemma deleteFile_error_fixed:
  "fst (deleteFile svc key) = Inl e \<Longrightarrow> e = AppError 500 ''Failed to delete file from storage''"
  by (auto simp add: deleteFile_def createError_def split: prod.splits sum.splits)

section \<open>Properties of the service\<close>

text \<open>
  C1. For a key whose listing is empty the \<open>try\<close> block throws the 404 error
  ``File not found'', but the \<open>catch\<close> block of the same method catches it and throws
  the 500 error ``Failed to get file metadata'' in its place: the caller never sees the
  status 404. Here the listing of \<open>demo/uploads\<close> for \<open>missing.png\<close> is empty.
\<close>

theorem getFileMetadata_missing_object:
  "getFileMetadata demo_service ''demo/uploads/missing.png'' =
     (Inl (AppError 500 ''Failed to get file metadata''),
      [ListObjects ''project-assets'' ''demo/uploads''
         \<lparr>limit = None, sortBy = None, search = Some ''missing.png''\<rparr>])"
  by code_simp

text \<open>
  C2. A file whose MIME type is not among the allowed types (those of the options, the
  four image types when the options give none) is refused with the 400 error ``Invalid file
  type'', and the list of requests sent is empty.
\<close>

theorem uploadFile_rejects_type:
  "(opt_allowedTypes options = None \<longrightarrow>
      allowedTypes_of options = [''image/jpeg'', ''image/png'', ''image/gif'', ''image/webp''])
   \<and> (mimetype file \<notin> set (allowedTypes_of options) \<longrightarrow>
      uploadFile svc rt file options =
        (Inl (AppError 400 (''Invalid file type. Allowed types: ''
                              @ join '', '' (allowedTypes_of options))), []))
   \<and> (opt_allowedTypes options = Some ts \<longrightarrow> allowedTypes_of options = ts)"
  by (simp add: uploadFile_invalid_type allowedTypes_of_def)

theorem uploadFile_rejects_type_witness:
  "opt_allowedTypes no_options = None
   \<and> mimetype demo_pdf \<notin> set (allowedTypes_of no_options)
   \<and> uploadFile demo_service demo_runtime demo_pdf no_options =
       (Inl (AppError 400
          ''Invalid file type. Allowed types: image/jpeg, image/png, image/gif, image/webp''), [])"
proof -
  have none: "opt_allowedTypes no_options = None"
    by (simp add: no_options_def)
  have outside: "mimetype demo_pdf \<notin> set (allowedTypes_of no_options)"
    by code_simp
  have msg_eq: "''Invalid file type. Allowed types: '' @ join '', '' (allowedTypes_of no_options)
                = ''Invalid file type. Allowed types: image/jpeg, image/png, image/gif, image/webp''"
    by code_simp
  show ?thesis
    using uploadFile_rejects_type [of no_options demo_pdf demo_service demo_runtime "[]"]
      none outside msg_eq by simp
qed

text \<open>
  C3. A file whose size exceeds the maximum (that of the options, 5 MiB when the options
  give none) is refused
  with a 400 error and no request is sent; when its type is allowed the error is ``File too
  large''. A file of an allowed type whose size is at most the maximum passes both checks:
  the upload request is sent, and no 400 error comes out of the call.
\<close>

theorem uploadFile_rejects_size:
  "(opt_maxSize options = None \<longrightarrow> maxSize_of options = 5 * 1024 * 1024)
   \<and> (size_bytes file > maxSize_of options \<longrightarrow>
        (\<exists>msg. uploadFile svc rt file options = (Inl (AppError 400 msg), [])))
   \<and> (mimetype file \<in> set (allowedTypes_of options) \<and> size_bytes file > maxSize_of options
        \<longrightarrow> uploadFile svc rt file options =
          (Inl (AppError 400 (''File too large. Maximum size: ''
                                @ show_megabytes rt (maxSize_of options) @ ''MB'')), []))
   \<and> (mimetype file \<in> set (allowedTypes_of options) \<and> size_bytes file \<le> maxSize_of options
        \<longrightarrow> snd (uploadFile svc rt file options) =
            [Upload (bucketName svc) (objectKey rt file options) (file_buffer file)
               \<lparr>contentType = mimetype file, cacheControl = ''3600'', upsert = False\<rparr>]
          \<and> (\<forall>msg. fst (uploadFile svc rt file options) \<noteq> Inl (AppError 400 msg)))
   \<and> (opt_maxSize options = Some m \<longrightarrow> maxSize_of options = m)"
proof (intro conjI impI allI)
  assume "opt_maxSize options = None"
  then show "maxSize_of options = 5 * 1024 * 1024"
    by (simp add: maxSize_of_def)
next
  assume "opt_maxSize options = Some m"
  then show "maxSize_of options = m"
    by (simp add: maxSize_of_def)
next
  assume big: "maxSize_of options < size_bytes file"
  show "\<exists>msg. uploadFile svc rt file options = (Inl (AppError 400 msg), [])"
  proof (cases "mimetype file \<in> set (allowedTypes_of options)")
    case True
    then show ?thesis using big uploadFile_too_large by blast
  next
    case False
    then show ?thesis using uploadFile_invalid_type by blast
  qed
next
  assume "mimetype file \<in> set (allowedTypes_of options) \<and> maxSize_of options < size_bytes file"
  then show "uploadFile svc rt file options =
          (Inl (AppError 400 (''File too large. Maximum size: ''
                                @ show_megabytes rt (maxSize_of options) @ ''MB'')), [])"
    by (simp add: uploadFile_too_large)
next
  assume "mimetype file \<in> set (allowedTypes_of options) \<and> size_bytes file \<le> maxSize_of options"
  then show "snd (uploadFile svc rt file options) =
            [Upload (bucketName svc) (objectKey rt file options) (file_buffer file)
               \<lparr>contentType = mimetype file, cacheControl = ''3600'', upsert = False\<rparr>]"
    by (simp add: uploadFile_sends)
next
  fix msg
  assume "mimetype file \<in> set (allowedTypes_of options) \<and> size_bytes file \<le> maxSize_of options"
  then show "fst (uploadFile svc rt file options) \<noteq> Inl (AppError 400 msg)"
    by (simp add: uploadFile_valid_not_400)
qed

theorem uploadFile_rejects_size_witness:
  "opt_maxSize no_options = None
   \<and> size_bytes demo_big > maxSize_of no_options
   \<and> mimetype demo_big \<in> set (allowedTypes_of no_options)
   \<and> uploadFile demo_service demo_runtime demo_big no_options =
       (Inl (AppError 400 ''File too large. Maximum size: 5MB''), [])
   \<and> mimetype demo_png \<in> set (allowedTypes_of no_options)
   \<and> size_bytes demo_png \<le> maxSize_of no_options
   \<and> snd (uploadFile demo_service demo_runtime demo_png no_options) =
       [Upload ''project-assets'' ''uploads/1712345678901-k3j9x0q2abc.png''
          [137, 80, 78, 71, 13, 10, 26, 10, 0, 0]
          \<lparr>contentType = ''image/png'', cacheControl = ''3600'', upsert = False\<rparr>]"
proof -
  have none: "opt_maxSize no_options = None"
    by (simp add: no_options_def)
  have big_type: "mimetype demo_big \<in> set (allowedTypes_of no_options)"
    by (simp add: demo_big_def no_options_def allowedTypes_of_def)
  have png_type: "mimetype demo_png \<in> set (allowedTypes_of no_options)"
    by (simp add: demo_png_def no_options_def allowedTypes_of_def)
  have small: "size_bytes demo_png \<le> maxSize_of no_options"
    by (simp add: demo_png_def no_options_def maxSize_of_def)
  show ?thesis
    using uploadFile_rejects_size [of no_options demo_big demo_service demo_runtime 0]
      uploadFile_rejects_size [of no_options demo_png demo_service demo_runtime 0]
      none demo_big_exceeds big_type png_type small demo_too_large_text demo_png_request
    by simp
qed



text \<open>
  C5. The outcome of \<open>getSignedUploadUrl\<close> and the request it sends do not depend on
  \<open>expiresIn\<close>: the only request is the creation of a signed upload URL for the bucket and
  the key.
\<close>

theorem getSignedUploadUrl_ignores_expiresIn:
  "getSignedUploadUrl svc key ctype e1 = getSignedUploadUrl svc key ctype e2
   \<and> snd (getSignedUploadUrl svc key ctype e1) = [CreateSignedUploadUrl (bucketName svc) key]"
  by (simp add: getSignedUploadUrl_def getSignedUploadUrl_body_def Let_def split: reply.splits)

text \<open>
  C6. When the backend refuses a removal with the text ``Object not found'', the
  \<open>try\<close> block throws ``Failed to delete file: Object not found'', and the \<open>catch\<close>
  block replaces it by the fixed 500 error ``Failed to delete file from storage'': the
  status and the prefix are stable, but the text of the backend is not in the message.
\<close>

theorem deleteFile_backend_text_dropped:
  "sb_remove (supabase demo_service) (bucketName demo_service) [''demo/uploads/a.png'']
     = StorageError ''Object not found''
   \<and> deleteFile demo_service ''demo/uploads/a.png'' =
     (Inl (AppError 500 ''Failed to delete file from storage''),
      [Remove ''project-assets'' [''demo/uploads/a.png'']])
   \<and> \<not> includes_str ''Failed to delete file from storage'' ''Object not found''"
  by code_simp

text \<open>
  C7. \<open>fileExists\<close> never throws. It sends one listing request: the prefix is the part
  of the key before its last slash, and the only option is a search for the part after
  it. It returns true exactly when that listing succeeds with at least one entry; a
  backend error and a thrown exception both give false. A key without a slash is searched
  for in the root.
\<close>

theorem fileExists_listing:
  "fileExists svc key =
     (Inr (\<exists>files. sb_list (supabase svc) (bucketName svc) (key_folder key)
                     \<lparr>limit = None, sortBy = None, search = Some (key_fileName key)\<rparr>
                   = Data files \<and> files \<noteq> []),
      [ListObjects (bucketName svc) (key_folder key)
         \<lparr>limit = None, sortBy = None, search = Some (key_fileName key)\<rparr>])
   \<and> (CHR ''/'' \<notin> set leaf \<longrightarrow>
         key_folder (parent @ ''/'' @ leaf) = parent \<and> key_fileName (parent @ ''/'' @ leaf) = leaf)
   \<and> (CHR ''/'' \<notin> set key \<longrightarrow> key_folder key = [] \<and> key_fileName key = key)"
  using key_folder_split [of leaf parent] key_fileName_split [of leaf parent]
  by (simp add: fileExists_eq key_folder_flat key_fileName_flat)

theorem fileExists_listing_witness:
  "CHR ''/'' \<notin> set ''a.mp4''
   \<and> fileExists demo_service ''proj/videos/a.mp4'' =
       (Inr True, [ListObjects ''project-assets'' ''proj/videos''
                     \<lparr>limit = None, sortBy = None, search = Some ''a.mp4''\<rparr>])
   \<and> CHR ''/'' \<notin> set ''zzz.mp4''
   \<and> fileExists demo_service ''proj/videos/zzz.mp4'' =
       (Inr False, [ListObjects ''project-assets'' ''proj/videos''
                      \<lparr>limit = None, sortBy = None, search = Some ''zzz.mp4''\<rparr>])
   \<and> fileExists unreachable_service ''proj/videos/a.mp4'' =
       (Inr False, [ListObjects ''project-assets'' ''proj/videos''
                      \<lparr>limit = None, sortBy = None, search = Some ''a.mp4''\<rparr>])
   \<and> fileExists unreachable_service ''a.mp4'' =
       (Inr False, [ListObjects ''project-assets'' []
                      \<lparr>limit = None, sortBy = None, search = Some ''a.mp4''\<rparr>])"
proof -
  have leaf: "CHR ''/'' \<notin> set ''a.mp4''" "CHR ''/'' \<notin> set ''zzz.mp4''"
    by simp_all
  have held: "sb_list (supabase demo_service) (bucketName demo_service) ''proj/videos''
                \<lparr>limit = None, sortBy = None, search = Some ''a.mp4''\<rparr> = Data [hd demo_files]"
    by code_simp
  have missing: "sb_list (supabase demo_service) (bucketName demo_service) ''proj/videos''
                \<lparr>limit = None, sortBy = None, search = Some ''zzz.mp4''\<rparr> = Data []"
    by code_simp
  have down: "\<And>p opts. sb_list (supabase unreachable_service) (bucketName unreachable_service) p opts
                = Throws (SdkError ''fetch failed'')"
    by (simp add: unreachable_service_def unreachable_client_def)
  have names: "bucketName demo_service = ''project-assets''"
      "bucketName unreachable_service = ''project-assets''"
    by (simp_all add: demo_service_def unreachable_service_def)
  show ?thesis
    using fileExists_listing [of demo_service "''proj/videos/a.mp4''" "''a.mp4''" "''proj/videos''"]
      fileExists_listing [of demo_service "''proj/videos/zzz.mp4''" "''zzz.mp4''" "''proj/videos''"]
      fileExists_listing [of unreachable_service "''proj/videos/a.mp4''" "''a.mp4''" "''proj/videos''"]
      fileExists_listing [of unreachable_service "''a.mp4''" "''a.mp4''" "''proj/videos''"]
      leaf held missing down names
    by simp
qed

text \<open>
  C9. \<open>listProjectFiles\<close> sends one listing request, for the prefix built from the
  sanitized project name and the folder, with a limit of 1000, ascending order by name and
  no search. When the backend answers with files, the result has one entry per file,
  whose \<open>Key\<close> is the prefix, a slash and the file's name. The prefix uses the same
  sanitization as the keys built by \<open>uploadFile\<close>, so an uploaded key lies under the
  prefix of its project and folder. Every key listed for ``Proj'' and ``videos'' starts
  with ``proj/videos/''.
\<close>

theorem listProjectFiles_keys:
  "snd (listProjectFiles svc wide projectName folder) =
     [ListObjects (bucketName svc) (list_prefix wide projectName folder) project_list_options]
   \<and> limit project_list_options = Some 1000
   \<and> sortBy project_list_options = Some (''name'', ''asc'')
   \<and> (sb_list (supabase svc) (bucketName svc) (list_prefix wide projectName folder)
          project_list_options = Data files
        \<longrightarrow> fst (listProjectFiles svc wide projectName folder) =
              Inr (map (listed_of (list_prefix wide projectName folder)) files)
            \<and> map Key (map (listed_of (list_prefix wide projectName folder)) files) =
              map (\<lambda>file. list_prefix wide projectName folder @ ''/'' @ fo_name file) files)
   \<and> list_prefix wide projectName folder =
       (if truthy folder then sanitizedProjectName wide projectName @ ''/'' @ the folder
        else sanitizedProjectName wide projectName)
   \<and> (p \<noteq> [] \<and> f \<noteq> [] \<and> opt_projectName options = Some p \<and> opt_folder options = Some f
        \<longrightarrow> objectKey rt file options =
              list_prefix (lower_wide rt) p (Some f) @ ''/'' @ fileName_of rt file)
   \<and> (fst (listProjectFiles svc wide (latin ''Proj'') (Some ''videos'')) = Inr entries
        \<longrightarrow> list_all (\<lambda>entry. startsWith (Key entry) ''proj/videos/'') entries)
   \<and> search project_list_options = None"
proof (intro conjI impI)
  show "snd (listProjectFiles svc wide projectName folder) =
     [ListObjects (bucketName svc) (list_prefix wide projectName folder) project_list_options]"
    by (rule listProjectFiles_sent)
  show "limit project_list_options = Some 1000"
    by (simp add: project_list_options_def)
  show "sortBy project_list_options = Some (''name'', ''asc'')"
    by (simp add: project_list_options_def)
  show "search project_list_options = None"
    by (simp add: project_list_options_def)
  show "list_prefix wide projectName folder =
       (if truthy folder then sanitizedProjectName wide projectName @ ''/'' @ the folder
        else sanitizedProjectName wide projectName)"
    by (simp add: list_prefix_def)
next
  assume "sb_list (supabase svc) (bucketName svc) (list_prefix wide projectName folder)
          project_list_options = Data files"
  then show "fst (listProjectFiles svc wide projectName folder) =
              Inr (map (listed_of (list_prefix wide projectName folder)) files)"
    by (rule listProjectFiles_data)
next
  show "map Key (map (listed_of (list_prefix wide projectName folder)) files) =
              map (\<lambda>file. list_prefix wide projectName folder @ ''/'' @ fo_name file) files"
    by (simp add: Key_listed_of comp_def)
next
  assume "p \<noteq> [] \<and> f \<noteq> [] \<and> opt_projectName options = Some p \<and> opt_folder options = Some f"
  then show "objectKey rt file options =
              list_prefix (lower_wide rt) p (Some f) @ ''/'' @ fileName_of rt file"
    by (simp add: objectKey_def list_prefix_def folder_of_def)
next
  assume "fst (listProjectFiles svc wide (latin ''Proj'') (Some ''videos'')) = Inr entries"
  then obtain files where "entries = map (listed_of ''proj/videos'') files"
    using listProjectFiles_Inr [of svc wide "latin ''Proj''" "Some ''videos''" entries]
    by (auto simp add: list_prefix_Proj_videos)
  moreover have "startsWith (''proj/videos/'' @ rest) ''proj/videos/''" for rest
    by (rule startsWith_append)
  ultimately show "list_all (\<lambda>entry. startsWith (Key entry) ''proj/videos/'') entries"
    by (simp add: list_all_iff Key_listed_of del: startsWith.simps)
qed

theorem listProjectFiles_keys_witness:
  "sb_list (supabase demo_service) (bucketName demo_service)
     (list_prefix demo_wide (latin ''Proj'') (Some ''videos'')) project_list_options
     = Data demo_files
   \<and> fst (listProjectFiles demo_service demo_wide (latin ''Proj'') (Some ''videos'')) =
       Inr [\<lparr>Key = ''proj/videos/a.mp4'', Size = Some 10,
              LastModified = ''2024-01-01T00:00:00Z''\<rparr>,
            \<lparr>Key = ''proj/videos/b.mp4'', Size = None,
              LastModified = ''2024-01-02T00:00:00Z''\<rparr>]
   \<and> snd (listProjectFiles demo_service demo_wide (latin ''Proj'') (Some ''videos'')) =
       [ListObjects ''project-assets'' ''proj/videos'' project_list_options]
   \<and> opt_projectName demo_project_options = Some (latin ''Proj'')
   \<and> opt_folder demo_project_options = Some ''videos''
   \<and> objectKey demo_runtime demo_png demo_project_options =
       ''proj/videos/1712345678901-k3j9x0q2abc.png''
   \<and> list_all (\<lambda>entry. startsWith (Key entry) ''proj/videos/'')
        [\<lparr>Key = ''proj/videos/a.mp4'', Size = Some 10,
           LastModified = ''2024-01-01T00:00:00Z''\<rparr>,
         \<lparr>Key = ''proj/videos/b.mp4'', Size = None,
           LastModified = ''2024-01-02T00:00:00Z''\<rparr>]"
proof -
  have opts: "opt_projectName demo_project_options = Some (latin ''Proj'')"
      "opt_folder demo_project_options = Some ''videos''"
    by (simp_all add: demo_project_options_def)
  have name: "bucketName demo_service = ''project-assets''"
    by (simp add: demo_service_def)
  have table: "lower_wide demo_runtime = demo_wide"
    by (simp add: demo_runtime_def)
  have nonempty: "latin ''Proj'' \<noteq> []" "''videos'' \<noteq> []"
    by (simp_all add: latin_def)
  note fact = listProjectFiles_keys [of demo_service demo_wide "latin ''Proj''" "Some ''videos''"
      demo_files "latin ''Proj''" "''videos''" demo_project_options demo_runtime demo_png
      "[\<lparr>Key = ''proj/videos/a.mp4'', Size = Some 10,
           LastModified = ''2024-01-01T00:00:00Z''\<rparr>,
         \<lparr>Key = ''proj/videos/b.mp4'', Size = None,
           LastModified = ''2024-01-02T00:00:00Z''\<rparr>]"]
  show ?thesis
    using fact demo_listing opts name nonempty
    by (simp add: table list_prefix_Proj_videos demo_entries demo_png_fileName)
qed

text \<open>
  C10. When the original file name has no dot, the extension taken from it is the whole
  name: the generated file name, and so the object key sent to the backend, ends with a
  dot followed by the whole original name.
\<close>

theorem objectKey_without_dot:
  "CHR ''.'' \<notin> set (originalname file) \<longrightarrow>
     fileExtension (originalname file) = Some (originalname file)
     \<and> fileName_of rt file =
         show_nat (now rt) @ ''-'' @ randomString rt @ ''.'' @ originalname file
     \<and> (\<exists>p. objectKey rt file options = p @ ''.'' @ originalname file)
     \<and> (mimetype file \<in> set (allowedTypes_of options) \<and> size_bytes file \<le> maxSize_of options
          \<longrightarrow> (\<exists>p. snd (uploadFile svc rt file options) =
                [Upload (bucketName svc) (p @ ''.'' @ originalname file) (file_buffer file)
                   \<lparr>contentType = mimetype file, cacheControl = ''3600'', upsert = False\<rparr>]))"
proof (intro impI)
  assume nodot: "CHR ''.'' \<notin> set (originalname file)"
  have ext: "fileExtension (originalname file) = Some (originalname file)"
    using nodot by (rule fileExtension_no_dot)
  have fname: "fileName_of rt file =
         show_nat (now rt) @ ''-'' @ randomString rt @ ''.'' @ originalname file"
    using nodot by (rule fileName_of_no_dot)
  obtain q where q: "objectKey rt file options = q @ fileName_of rt file"
    using objectKey_ends_with_fileName by blast
  have key: "objectKey rt file options =
          (q @ show_nat (now rt) @ ''-'' @ randomString rt) @ ''.'' @ originalname file"
    using q fname by simp
  then have ex: "\<exists>p. objectKey rt file options = p @ ''.'' @ originalname file"
    by blast
  have sent: "\<exists>p. snd (uploadFile svc rt file options) =
                [Upload (bucketName svc) (p @ ''.'' @ originalname file) (file_buffer file)
                   \<lparr>contentType = mimetype file, cacheControl = ''3600'', upsert = False\<rparr>]"
    if ok: "mimetype file \<in> set (allowedTypes_of options) \<and> size_bytes file \<le> maxSize_of options"
  proof -
    have "snd (uploadFile svc rt file options) =
            [Upload (bucketName svc) (objectKey rt file options) (file_buffer file)
               \<lparr>contentType = mimetype file, cacheControl = ''3600'', upsert = False\<rparr>]"
      using ok by (simp add: uploadFile_sends)
    then show ?thesis
      unfolding key by blast
  qed
  show "fileExtension (originalname file) = Some (originalname file)
     \<and> fileName_of rt file =
         show_nat (now rt) @ ''-'' @ randomString rt @ ''.'' @ originalname file
     \<and> (\<exists>p. objectKey rt file options = p @ ''.'' @ originalname file)
     \<and> (mimetype file \<in> set (allowedTypes_of options) \<and> size_bytes file \<le> maxSize_of options
          \<longrightarrow> (\<exists>p. snd (uploadFile svc rt file options) =
                [Upload (bucketName svc) (p @ ''.'' @ originalname file) (file_buffer file)
                   \<lparr>contentType = mimetype file, cacheControl = ''3600'', upsert = False\<rparr>]))"
    using ext fname ex sent by blast
qed

theorem objectKey_without_dot_witness:
  "CHR ''.'' \<notin> set (originalname demo_readme)
   \<and> fileExtension (originalname demo_readme) = Some ''README''
   \<and> fileName_of demo_runtime demo_readme = ''1712345678901-k3j9x0q2abc.README''
   \<and> objectKey demo_runtime demo_readme no_options = ''uploads/1712345678901-k3j9x0q2abc.README''"
proof -
  have nodot: "CHR ''.'' \<notin> set (originalname demo_readme)"
    by (simp add: demo_readme_def)
  have name: "originalname demo_readme = ''README''"
    by (simp add: demo_readme_def)
  have stamp: "show_nat (now demo_runtime) @ ''-'' @ randomString demo_runtime
                 = ''1712345678901-k3j9x0q2abc''"
    by (simp add: demo_runtime_def show_nat.simps digitChar_def)
  have fname: "fileName_of demo_runtime demo_readme = ''1712345678901-k3j9x0q2abc.README''"
    using objectKey_without_dot [of demo_readme demo_runtime no_options demo_service] nodot
      stamp name by simp
  have "objectKey demo_runtime demo_readme no_options = ''uploads/'' @ fileName_of demo_runtime demo_readme"
    by (simp add: objectKey_def no_options_def folder_of_def)
  then show ?thesis
    using objectKey_without_dot [of demo_readme demo_runtime no_options demo_service] nodot
      name fname by simp
qed

end
